theory Spec2Isabelle
  imports Main
begin

section \<open>JavaScript strings\<close>

text \<open>
  A JavaScript string is modelled as a \<^typ>\<open>string\<close>, one \<^typ>\<open>char\<close> per code unit.
  \<open>String.prototype.slice\<close> clamps both bounds to the string: a negative bound counts from
  the end, a bound beyond the end is the end, and an empty range gives the empty string.
\<close>

definition slice_bound :: "string \<Rightarrow> int \<Rightarrow> nat" where
  "slice_bound v i =
     (if i < 0 then nat (max (int (length v) + i) 0) else nat (min i (int (length v))))"

definition slice :: "string \<Rightarrow> int \<Rightarrow> int \<Rightarrow> string" where
  "slice v start end = drop (slice_bound v start) (take (slice_bound v end) v)"

definition slice_from :: "string \<Rightarrow> int \<Rightarrow> string" where
  "slice_from v start = drop (slice_bound v start) v"

section \<open>The wallet address pipe\<close>

text \<open>
  \<open>WalletAddressFormatPipe.transform\<close>: a falsy value (for a string: the empty one) or a
  value shorter than ten code units is returned as it is; otherwise the first six and the
  last four code units are kept around three dots.
\<close>

definition transform :: "string \<Rightarrow> string" where
  "transform v =
     (if v = [] \<or> length v < 10 then v
      else (let firstSix = slice v 0 6; lastFour = slice_from v (- 4)
            in firstSix @ ''...'' @ lastFour))"

section \<open>JavaScript values and JSON text\<close>

text \<open>
  The values that \<open>JSON.parse\<close> can return. An object is its list of members, each key
  once, as the parser leaves it.
\<close>

datatype jsval =
    JUndefined
  | JNull
  | JBool bool
  | JNum int
  | JStr string
  | JArr "jsval list"
  | JObj "(string \<times> jsval) list"

text \<open>
  The optional read \<open>v?.k\<close> for the keys the application reads (\<open>address\<close>,
  \<open>chainId\<close>, \<open>isConnected\<close>): only an object can have them.
\<close>

fun get_prop :: "jsval \<Rightarrow> string \<Rightarrow> jsval" where
  "get_prop (JObj members) k = (case map_of members k of Some v \<Rightarrow> v | None \<Rightarrow> JUndefined)"
| "get_prop _ k = JUndefined"

fun truthy :: "jsval \<Rightarrow> bool" where
  "truthy JUndefined = False"
| "truthy JNull = False"
| "truthy (JBool b) = b"
| "truthy (JNum n) = (n \<noteq> 0)"
| "truthy (JStr s) = (s \<noteq> [])"
| "truthy (JArr _) = True"
| "truthy (JObj _) = True"

text \<open>\<open>x || null\<close> on an optional number: zero and the absent value both give null.\<close>

definition or_null :: "int option \<Rightarrow> int option" where
  "or_null x = (case x of None \<Rightarrow> None | Some n \<Rightarrow> if n = 0 then None else Some n)"

text \<open>\<open>x || false\<close> on an optional boolean.\<close>

definition or_false :: "bool option \<Rightarrow> bool" where
  "or_false x = (case x of None \<Rightarrow> False | Some b \<Rightarrow> b)"

text \<open>
  \<open>JSON.stringify\<close> on the object that \<open>saveConnectionState\<close> builds. Integers print in
  decimal; a string is quoted with the escapes of \<open>QuoteJSONString\<close>; a member whose value
  is undefined is left out.
\<close>

definition digit_char :: "nat \<Rightarrow> char" where
  "digit_char d = ''0123456789abcdef'' ! d"

function show_nat :: "nat \<Rightarrow> string" where
  "show_nat n = (if n < 10 then [digit_char n] else show_nat (n div 10) @ [digit_char (n mod 10)])"
  by pat_completeness auto
termination
  by (relation "measure id") auto

definition show_int :: "int \<Rightarrow> string" where
  "show_int i = (if i < 0 then CHR ''-'' # show_nat (nat (- i)) else show_nat (nat i))"

definition hex4 :: "nat \<Rightarrow> string" where
  "hex4 n = map digit_char [n div 4096 mod 16, n div 256 mod 16, n div 16 mod 16, n mod 16]"

definition quote_char :: "char \<Rightarrow> string" where
  "quote_char c =
     (if c = CHR 0x22 then [CHR 0x5C, CHR 0x22]
      else if c = CHR 0x5C then [CHR 0x5C, CHR 0x5C]
      else if c = CHR 0x08 then [CHR 0x5C, CHR ''b'']
      else if c = CHR 0x09 then [CHR 0x5C, CHR ''t'']
      else if c = CHR 0x0A then [CHR 0x5C, CHR ''n'']
      else if c = CHR 0x0C then [CHR 0x5C, CHR ''f'']
      else if c = CHR 0x0D then [CHR 0x5C, CHR ''r'']
      else if (of_char c :: nat) < 32 then [CHR 0x5C, CHR ''u''] @ hex4 (of_char c)
      else [c])"

definition quote :: "string \<Rightarrow> string" where
  "quote s = [CHR 0x22] @ concat (map quote_char s) @ [CHR 0x22]"

fun join :: "string \<Rightarrow> string list \<Rightarrow> string" where
  "join sep [] = []"
| "join sep [x] = x"
| "join sep (x # y # ys) = x @ sep @ join sep (y # ys)"

text \<open>The object literal \<open>{ address, chainId, isConnected }\<close> of \<open>saveConnectionState\<close>.\<close>

record connection_state =
  address :: "string option"
  chainId :: "int option"
  isConnected :: bool

definition JSON_stringify :: "connection_state \<Rightarrow> string" where
  "JSON_stringify st =
     ''{'' @ join '',''
       ((case address st of None \<Rightarrow> [] | Some a \<Rightarrow> [quote ''address'' @ '':'' @ quote a]) @
        (case chainId st of None \<Rightarrow> [] | Some c \<Rightarrow> [quote ''chainId'' @ '':'' @ show_int c]) @
        [quote ''isConnected'' @ '':'' @ (if isConnected st then ''true'' else ''false'')])
     @ ''}''"

section \<open>The connector provider\<close>

text \<open>
  \<open>GetAccountReturnType\<close>: the fields of the provider's account that the application reads;
  \<open>acct_chain\<close> is \<open>chain.id\<close> when the account has a chain.
\<close>

record provider_account =
  acct_address :: "string option"
  acct_chainId :: "int option"
  acct_chain :: "int option"
  acct_isConnected :: bool

text \<open>What \<open>connect\<close> resolves with: \<open>{ accounts, chainId }\<close>.\<close>

record connect_result =
  accounts :: "string list"
  connect_chainId :: int

text \<open>
  What \<open>reconnect\<close> resolves with, read as \<open>result.account\<close>, \<open>result.chainId\<close> and
  \<open>result.isConnected\<close>; the value is untyped in the source, so each read may be undefined.
\<close>

record reconnect_result =
  account :: "string option"
  reconnect_chainId :: "int option"
  reconnect_isConnected :: "bool option"

datatype connectorType = Injected | Coinbase | WalletConnect

datatype connector =
    injected
  | coinbaseWallet string
  | walletConnect string bool

definition holesky_id :: int where
  "holesky_id = 17000"

datatype provider_call =
    connect connector
  | disconnect
  | reconnect "connector list"
  | switchChain int
  | watchAccount
  | watchChainId

text \<open>
  What the environment answers during one synchronous run of the service: the provider's
  live account, and \<open>JSON.parse\<close>, which gives no value where it throws a SyntaxError.
\<close>

record world =
  getAccount :: "provider_account option"
  JSON_parse :: "string \<Rightarrow> jsval option"

section \<open>Raised errors\<close>

text \<open>
  The value a rejected provider call carries is untyped in the source. It is an instance of
  \<open>Error\<close> with its name and message, some other object whose \<open>name\<close> and \<open>message\<close>
  members (strings) may be missing, or a primitive, which has neither.
\<close>

datatype js_error =
    Error_instance string string
  | Other_object "string option" "string option"
  | Primitive

fun error_name :: "js_error \<Rightarrow> string option" where
  "error_name (Error_instance n m) = Some n"
| "error_name (Other_object n m) = n"
| "error_name Primitive = None"

fun error_message :: "js_error \<Rightarrow> string option" where
  "error_message (Error_instance n m) = Some m"
| "error_message (Other_object n m) = m"
| "error_message Primitive = None"

fun instanceof_Error :: "js_error \<Rightarrow> bool" where
  "instanceof_Error (Error_instance n m) = True"
| "instanceof_Error _ = False"

section \<open>The wallet service\<close>

text \<open>
  The account channel carries the provider's account or, on restore, whatever the persisted
  text parsed to.
\<close>

datatype account_value = Live provider_account | Restored jsval

datatype event =
    AccountNext "account_value option"
  | ChainIdNext "int option"
  | LoadingNext bool
  | ErrorNext "js_error option"
  | ToastrError string string
  | SetItem string
  | RemoveItem
  | ConsoleLog string
  | ConsoleError string
  | ProviderCall provider_call

text \<open>
  The four subjects hold their current value (undefined and null are \<open>None\<close>);
  \<open>localStorage\<close> is the entry under \<open>LOCAL_STORAGE_KEY\<close>; \<open>events\<close> lists every
  emission and outside effect in the order the service made them.
\<close>

record wallet_service =
  accountSubject :: "account_value option"
  chainIdSubject :: "int option"
  loadingSubject :: bool
  errorSubject :: "js_error option"
  localStorage :: "string option"
  events :: "event list"

definition accountSubject_next :: "account_value option \<Rightarrow> wallet_service \<Rightarrow> wallet_service" where
  "accountSubject_next v s = s\<lparr>accountSubject := v, events := events s @ [AccountNext v]\<rparr>"

definition chainIdSubject_next :: "int option \<Rightarrow> wallet_service \<Rightarrow> wallet_service" where
  "chainIdSubject_next v s = s\<lparr>chainIdSubject := v, events := events s @ [ChainIdNext v]\<rparr>"

definition loadingSubject_next :: "bool \<Rightarrow> wallet_service \<Rightarrow> wallet_service" where
  "loadingSubject_next v s = s\<lparr>loadingSubject := v, events := events s @ [LoadingNext v]\<rparr>"

definition errorSubject_next :: "js_error option \<Rightarrow> wallet_service \<Rightarrow> wallet_service" where
  "errorSubject_next v s = s\<lparr>errorSubject := v, events := events s @ [ErrorNext v]\<rparr>"

definition toastr_error :: "string \<Rightarrow> string \<Rightarrow> wallet_service \<Rightarrow> wallet_service" where
  "toastr_error message title s = s\<lparr>events := events s @ [ToastrError message title]\<rparr>"

definition localStorage_setItem :: "string \<Rightarrow> wallet_service \<Rightarrow> wallet_service" where
  "localStorage_setItem v s = s\<lparr>localStorage := Some v, events := events s @ [SetItem v]\<rparr>"

definition localStorage_removeItem :: "wallet_service \<Rightarrow> wallet_service" where
  "localStorage_removeItem s = s\<lparr>localStorage := None, events := events s @ [RemoveItem]\<rparr>"

definition console_log :: "string \<Rightarrow> wallet_service \<Rightarrow> wallet_service" where
  "console_log label s = s\<lparr>events := events s @ [ConsoleLog label]\<rparr>"

definition console_error :: "string \<Rightarrow> wallet_service \<Rightarrow> wallet_service" where
  "console_error label s = s\<lparr>events := events s @ [ConsoleError label]\<rparr>"

definition provider :: "provider_call \<Rightarrow> wallet_service \<Rightarrow> wallet_service" where
  "provider c s = s\<lparr>events := events s @ [ProviderCall c]\<rparr>"

subsection \<open>Error routing and persistence\<close>

definition errorMessage :: "js_error \<Rightarrow> string" where
  "errorMessage error =
     (if error_name error = Some ''UserRejectedRequestError''
      then ''You rejected the wallet connection request.''
      else (case error_message error of
              Some m \<Rightarrow> if m \<noteq> [] then m else ''An unknown error occurred. Please try again.''
            | None \<Rightarrow> ''An unknown error occurred. Please try again.''))"

definition handleConnectionError :: "js_error \<Rightarrow> wallet_service \<Rightarrow> wallet_service" where
  "handleConnectionError error s =
     toastr_error (errorMessage error) ''Connection Failed''
       (errorSubject_next
          (Some (if instanceof_Error error then error
                 else Error_instance ''Error'' (errorMessage error))) s)"

definition saveConnectionState ::
    "string option \<Rightarrow> int option \<Rightarrow> bool \<Rightarrow> wallet_service \<Rightarrow> wallet_service" where
  "saveConnectionState a c b s =
     localStorage_setItem (JSON_stringify \<lparr>address = a, chainId = c, isConnected = b\<rparr>) s"

definition clearConnectionState :: "wallet_service \<Rightarrow> wallet_service" where
  "clearConnectionState s = localStorage_removeItem s"

subsection \<open>Reconnect\<close>

text \<open>
  \<open>reconnectWallet\<close> is an async function: the call runs it up to its \<open>await\<close>, and the
  rest runs when the provider settles the promise, through \<open>try\<close>, \<open>catch\<close> and
  \<open>finally\<close>.
\<close>

definition connectors :: "connector list" where
  "connectors =
     [injected, coinbaseWallet ''BX Dex'',
      walletConnect ''5c2ca0dd3003fb371acdb8442a626a0c'' True]"

definition reconnectWallet :: "wallet_service \<Rightarrow> wallet_service" where
  "reconnectWallet s =
     provider (reconnect connectors) (errorSubject_next None (loadingSubject_next True s))"

definition reconnectWallet_resolved :: "reconnect_result \<Rightarrow> wallet_service \<Rightarrow> wallet_service" where
  "reconnectWallet_resolved result s =
     loadingSubject_next False
       (saveConnectionState (account result) (reconnect_chainId result)
          (or_false (reconnect_isConnected result))
          (console_log ''Reconnected wallet:'' s))"

definition reconnectWallet_rejected :: "js_error \<Rightarrow> wallet_service \<Rightarrow> wallet_service" where
  "reconnectWallet_rejected error s =
     loadingSubject_next False
       (handleConnectionError error (console_error ''Failed to reconnect wallet:'' s))"

subsection \<open>Initialisation and the watchers\<close>

definition updateAccount :: "world \<Rightarrow> wallet_service \<Rightarrow> wallet_service" where
  "updateAccount w s =
     (case localStorage s of
        None \<Rightarrow> accountSubject_next (map_option Live (getAccount w)) s
      | Some savedState \<Rightarrow>
          if savedState \<noteq> [] then
            (let s1 = reconnectWallet s in
             case JSON_parse w savedState of
               Some data \<Rightarrow> accountSubject_next (Some (Restored data)) (console_log ''loadData'' s1)
             | None \<Rightarrow> console_error ''Failed to parse wallet connection state:'' s1)
          else accountSubject_next (map_option Live (getAccount w)) s)"

definition updateChainId :: "world \<Rightarrow> wallet_service \<Rightarrow> wallet_service" where
  "updateChainId w s =
     chainIdSubject_next
       (or_null (case getAccount w of None \<Rightarrow> None | Some a \<Rightarrow> acct_chain a)) s"

definition startWatchingAccount :: "wallet_service \<Rightarrow> wallet_service" where
  "startWatchingAccount s = provider watchAccount s"

definition startWatchingChainId :: "wallet_service \<Rightarrow> wallet_service" where
  "startWatchingChainId s = provider watchChainId s"

text \<open>The \<open>onChange\<close> callbacks of the two watchers.\<close>

definition onAccountChange :: "provider_account option \<Rightarrow> wallet_service \<Rightarrow> wallet_service" where
  "onAccountChange a s =
     accountSubject_next (map_option Live a) (console_log ''Account changed:'' s)"

definition onChainIdChange :: "int option \<Rightarrow> wallet_service \<Rightarrow> wallet_service" where
  "onChainIdChange c s = chainIdSubject_next (or_null c) (console_log ''Chain ID changed:'' s)"

definition initialize :: "world \<Rightarrow> wallet_service \<Rightarrow> wallet_service" where
  "initialize w s =
     startWatchingChainId (startWatchingAccount (updateChainId w (updateAccount w s)))"

text \<open>
  The field initialisers of the class, over the store as it is found, and the constructor,
  which runs \<open>initialize\<close> on them.
\<close>

definition fields :: "string option \<Rightarrow> wallet_service" where
  "fields stored =
     \<lparr>accountSubject = None, chainIdSubject = None, loadingSubject = False,
      errorSubject = None, localStorage = stored, events = []\<rparr>"

definition new_WalletService :: "world \<Rightarrow> string option \<Rightarrow> wallet_service" where
  "new_WalletService w stored = initialize w (fields stored)"

subsection \<open>Connect, disconnect and switch\<close>

text \<open>
  \<open>connectWallet\<close> and \<open>disconnectWallet\<close> run up to the subscription of the provider's
  promise; the subscriber's \<open>next\<close> or \<open>error\<close> callback runs when the promise settles.
\<close>

definition connector_of :: "connectorType \<Rightarrow> connector" where
  "connector_of connectorType =
     (if connectorType = Injected then injected
      else if connectorType = Coinbase then coinbaseWallet ''BX Dex''
      else walletConnect ''5c2ca0dd3003fb371acdb8442a626a0c'' True)"

definition connectWallet :: "connectorType \<Rightarrow> wallet_service \<Rightarrow> wallet_service" where
  "connectWallet connectorType s =
     provider (connect (connector_of connectorType))
       (errorSubject_next None (loadingSubject_next True s))"

definition first_account :: "string list \<Rightarrow> string option" where
  "first_account as = (case as of [] \<Rightarrow> None | a # _ \<Rightarrow> Some a)"

definition connectWallet_next :: "connect_result \<Rightarrow> world \<Rightarrow> wallet_service \<Rightarrow> wallet_service" where
  "connectWallet_next result w s =
     loadingSubject_next False
       (saveConnectionState (first_account (accounts result)) (Some (connect_chainId result)) True
          (updateAccount w (console_log ''Wallet connected:'' s)))"

definition connectWallet_error :: "js_error \<Rightarrow> wallet_service \<Rightarrow> wallet_service" where
  "connectWallet_error error s =
     loadingSubject_next False
       (handleConnectionError error (console_error ''Failed to connect wallet:'' s))"

definition disconnectWallet :: "wallet_service \<Rightarrow> wallet_service" where
  "disconnectWallet s =
     provider disconnect
       (console_log ''wagmi config'' (errorSubject_next None (loadingSubject_next True s)))"

definition disconnectWallet_next :: "wallet_service \<Rightarrow> wallet_service" where
  "disconnectWallet_next s =
     loadingSubject_next False
       (clearConnectionState
          (chainIdSubject_next None
             (accountSubject_next None (console_log ''Wallet disconnected'' s))))"

definition disconnectWallet_error :: "js_error \<Rightarrow> wallet_service \<Rightarrow> wallet_service" where
  "disconnectWallet_error error s =
     loadingSubject_next False
       (handleConnectionError error (console_error ''Failed to disconnect wallet:'' s))"

text \<open>
  \<open>switchNetwork\<close> is an async function too: the call asks the provider for the Holesky
  chain; the rest returns the boolean once the provider has settled.
\<close>

datatype 'a settled = Resolved 'a | Rejected js_error

definition switchNetwork :: "wallet_service \<Rightarrow> wallet_service" where
  "switchNetwork s = provider (switchChain holesky_id) s"

definition switchNetwork_settled :: "'a settled \<Rightarrow> wallet_service \<Rightarrow> bool \<times> wallet_service" where
  "switchNetwork_settled outcome s =
     (case outcome of
        Resolved result \<Rightarrow> (True, console_log ''Switched to:'' s)
      | Rejected error \<Rightarrow> (False, handleConnectionError error s))"

subsection \<open>What a subscriber reads\<close>

text \<open>
  The navigation bar reads \<open>!!account?.isConnected\<close> and \<open>account?.address\<close> from each
  value of the account channel; the toasts are the notifications the user has seen.
\<close>

fun value_isConnected :: "account_value option \<Rightarrow> bool" where
  "value_isConnected None = False"
| "value_isConnected (Some (Live a)) = acct_isConnected a"
| "value_isConnected (Some (Restored d)) = truthy (get_prop d ''isConnected'')"

fun value_address :: "account_value option \<Rightarrow> jsval" where
  "value_address None = JUndefined"
| "value_address (Some (Live a)) = (case acct_address a of None \<Rightarrow> JUndefined | Some x \<Rightarrow> JStr x)"
| "value_address (Some (Restored d)) = get_prop d ''address''"

fun toast_of :: "event \<Rightarrow> (string \<times> string) list" where
  "toast_of (ToastrError message title) = [(message, title)]"
| "toast_of _ = []"

definition toasts :: "wallet_service \<Rightarrow> (string \<times> string) list" where
  "toasts s = concat (map toast_of (events s))"

section \<open>Properties of the wallet address pipe\<close>

lemma slice_first_six: "6 \<le> length v \<Longrightarrow> slice v 0 6 = take 6 v"
  by (simp add: slice_def slice_bound_def min_def)

lemma slice_last_four: "4 \<le> length v \<Longrightarrow> slice_from v (- 4) = drop (length v - 4) v"
proof -
  assume len: "4 \<le> length v"
  then have "nat (max (int (length v) + (- 4)) 0) = length v - 4"
    by simp
  then show ?thesis
    by (simp add: slice_from_def slice_bound_def)
qed

text \<open>
  Claim C10. For every input of length at least 10 the formatter returns the first six
  characters, then the literal three dots, then the last four characters, so the result has
  length 13; every input shorter than 10, the empty string included, is returned unchanged.
\<close>

theorem transform_format:
  "(10 \<le> length v \<longrightarrow>
      transform v = take 6 v @ ''...'' @ drop (length v - 4) v \<and> length (transform v) = 13) \<and>
   (length v < 10 \<longrightarrow> transform v = v)"
proof (intro conjI impI)
  assume long: "10 \<le> length v"
  then have ne: "v \<noteq> []" and nlt: "\<not> length v < 10"
    by auto
  from long have six: "slice v 0 6 = take 6 v"
    by (simp add: slice_first_six)
  from long have four: "slice_from v (- 4) = drop (length v - 4) v"
    by (simp add: slice_last_four)
  from ne nlt six four
  show eq: "transform v = take 6 v @ ''...'' @ drop (length v - 4) v"
    by (simp add: transform_def)
  from long show "length (transform v) = 13"
    by (simp add: eq)
next
  assume "length v < 10"
  then show "transform v = v"
    by (simp add: transform_def)
qed

theorem transform_format_witness:
  "transform ''0x1234567890abcdef'' = ''0x1234...cdef'' \<and>
   length (transform ''0x1234567890abcdef'') = 13 \<and>
   transform ''0x12'' = ''0x12'' \<and> transform [] = []"
proof -
  have long: "transform ''0x1234567890abcdef'' = ''0x1234...cdef'' \<and>
      length (transform ''0x1234567890abcdef'') = 13"
    using transform_format [of "''0x1234567890abcdef''"] by simp
  have short: "transform ''0x12'' = ''0x12''"
    using transform_format [of "''0x12''"] by simp
  have empty: "transform [] = []"
    using transform_format [of "[]"] by simp
  from long short empty show ?thesis
    by simp
qed

section \<open>Properties of the channel steps\<close>

lemmas channel_defs =
  accountSubject_next_def chainIdSubject_next_def loadingSubject_next_def errorSubject_next_def
  toastr_error_def localStorage_setItem_def localStorage_removeItem_def console_log_def
  console_error_def provider_def

lemma handleConnectionError_fields:
  "accountSubject (handleConnectionError e s) = accountSubject s"
  "chainIdSubject (handleConnectionError e s) = chainIdSubject s"
  "loadingSubject (handleConnectionError e s) = loadingSubject s"
  "localStorage (handleConnectionError e s) = localStorage s"
  "errorSubject (handleConnectionError e s) =
     Some (if instanceof_Error e then e else Error_instance ''Error'' (errorMessage e))"
  "events (handleConnectionError e s) =
     events s @
       [ErrorNext (Some (if instanceof_Error e then e
                         else Error_instance ''Error'' (errorMessage e))),
        ToastrError (errorMessage e) ''Connection Failed'']"
  by (simp_all add: handleConnectionError_def channel_defs)

lemma handleConnectionError_toasts:
  "toasts (handleConnectionError e s) = toasts s @ [(errorMessage e, ''Connection Failed'')]"
  by (simp add: toasts_def handleConnectionError_fields)

lemma reconnectWallet_fields:
  "accountSubject (reconnectWallet s) = accountSubject s"
  "chainIdSubject (reconnectWallet s) = chainIdSubject s"
  "localStorage (reconnectWallet s) = localStorage s"
  "loadingSubject (reconnectWallet s) = True"
  "errorSubject (reconnectWallet s) = None"
  "events (reconnectWallet s) =
     events s @ [LoadingNext True, ErrorNext None, ProviderCall (reconnect connectors)]"
  by (simp_all add: reconnectWallet_def channel_defs)

lemma updateAccount_live:
  assumes "localStorage s = None \<or> localStorage s = Some []"
  shows "updateAccount w s = accountSubject_next (map_option Live (getAccount w)) s"
  using assms by (auto simp add: updateAccount_def)

lemma updateAccount_restored:
  assumes "localStorage s = Some t" and "t \<noteq> []" and "JSON_parse w t = Some d"
  shows "updateAccount w s =
    accountSubject_next (Some (Restored d)) (console_log ''loadData'' (reconnectWallet s))"
  using assms by (simp add: updateAccount_def)

lemma updateAccount_unparsed:
  assumes "localStorage s = Some t" and "t \<noteq> []" and "JSON_parse w t = None"
  shows "updateAccount w s =
    console_error ''Failed to parse wallet connection state:'' (reconnectWallet s)"
  using assms by (simp add: updateAccount_def)

lemma updateAccount_keeps:
  "chainIdSubject (updateAccount w s) = chainIdSubject s"
  "localStorage (updateAccount w s) = localStorage s"
  by (simp_all add: updateAccount_def Let_def channel_defs reconnectWallet_fields
      split: option.splits)

lemma initialize_keeps:
  "localStorage (initialize w s) = localStorage s"
  "accountSubject (initialize w s) = accountSubject (updateAccount w s)"
  "chainIdSubject (initialize w s) =
     or_null (case getAccount w of None \<Rightarrow> None | Some a \<Rightarrow> acct_chain a)"
  "events (initialize w s) =
     events (updateAccount w s) @
       [ChainIdNext (or_null (case getAccount w of None \<Rightarrow> None | Some a \<Rightarrow> acct_chain a)),
        ProviderCall watchAccount, ProviderCall watchChainId]"
  by (simp_all add: initialize_def startWatchingChainId_def startWatchingAccount_def
      updateChainId_def channel_defs updateAccount_keeps)

section \<open>Properties of disconnect, connect failure and network switch\<close>

text \<open>
  Claim C3. A successful disconnect publishes the account as absent and the chain id as
  absent and removes the persisted record; a failed disconnect leaves the account channel,
  the chain id channel and the persisted record as they were; in both cases loading ends at
  false. The start of the operation touches none of the three either.
\<close>

theorem disconnectWallet_outcomes:
  "accountSubject (disconnectWallet_next s) = None \<and>
   chainIdSubject (disconnectWallet_next s) = None \<and>
   localStorage (disconnectWallet_next s) = None \<and>
   loadingSubject (disconnectWallet_next s) = False \<and>
   events (disconnectWallet_next s) =
     events s @ [ConsoleLog ''Wallet disconnected'', AccountNext None, ChainIdNext None,
                 RemoveItem, LoadingNext False] \<and>
   accountSubject (disconnectWallet_error e s) = accountSubject s \<and>
   chainIdSubject (disconnectWallet_error e s) = chainIdSubject s \<and>
   localStorage (disconnectWallet_error e s) = localStorage s \<and>
   loadingSubject (disconnectWallet_error e s) = False \<and>
   accountSubject (disconnectWallet s) = accountSubject s \<and>
   chainIdSubject (disconnectWallet s) = chainIdSubject s \<and>
   localStorage (disconnectWallet s) = localStorage s"
proof -
  have ok: "accountSubject (disconnectWallet_next s) = None \<and>
      chainIdSubject (disconnectWallet_next s) = None \<and>
      localStorage (disconnectWallet_next s) = None \<and>
      loadingSubject (disconnectWallet_next s) = False \<and>
      events (disconnectWallet_next s) =
        events s @ [ConsoleLog ''Wallet disconnected'', AccountNext None, ChainIdNext None,
                    RemoveItem, LoadingNext False]"
    by (simp add: disconnectWallet_next_def clearConnectionState_def channel_defs)
  have failed: "accountSubject (disconnectWallet_error e s) = accountSubject s \<and>
      chainIdSubject (disconnectWallet_error e s) = chainIdSubject s \<and>
      localStorage (disconnectWallet_error e s) = localStorage s \<and>
      loadingSubject (disconnectWallet_error e s) = False"
    by (simp add: disconnectWallet_error_def loadingSubject_next_def console_error_def
        handleConnectionError_fields)
  have start: "accountSubject (disconnectWallet s) = accountSubject s \<and>
      chainIdSubject (disconnectWallet s) = chainIdSubject s \<and>
      localStorage (disconnectWallet s) = localStorage s"
    by (simp add: disconnectWallet_def channel_defs)
  from ok failed start show ?thesis
    by simp
qed

text \<open>
  Claim C6. After a failed connect, whatever the connector kind and whatever the error, the
  persisted record is unchanged, nothing is emitted on the account and chain id channels,
  and loading is back at false: the error callback emits the error, the toast and the
  loading flag and nothing else, and the start of the operation emits only the loading flag,
  the cleared error and the provider call.
\<close>

theorem connectWallet_failure:
  "localStorage (connectWallet_error e s) = localStorage s \<and>
   accountSubject (connectWallet_error e s) = accountSubject s \<and>
   chainIdSubject (connectWallet_error e s) = chainIdSubject s \<and>
   loadingSubject (connectWallet_error e s) = False \<and>
   events (connectWallet_error e s) =
     events s @
       [ConsoleError ''Failed to connect wallet:'',
        ErrorNext (Some (if instanceof_Error e then e
                         else Error_instance ''Error'' (errorMessage e))),
        ToastrError (errorMessage e) ''Connection Failed'', LoadingNext False] \<and>
   localStorage (connectWallet k s) = localStorage s \<and>
   accountSubject (connectWallet k s) = accountSubject s \<and>
   chainIdSubject (connectWallet k s) = chainIdSubject s \<and>
   events (connectWallet k s) =
     events s @ [LoadingNext True, ErrorNext None, ProviderCall (connect (connector_of k))] \<and>
   loadingSubject (connectWallet_error e (connectWallet k s)) = False \<and>
   localStorage (connectWallet_error e (connectWallet k s)) = localStorage s \<and>
   accountSubject (connectWallet_error e (connectWallet k s)) = accountSubject s \<and>
   chainIdSubject (connectWallet_error e (connectWallet k s)) = chainIdSubject s"
proof -
  have failed: "localStorage (connectWallet_error e t) = localStorage t \<and>
      accountSubject (connectWallet_error e t) = accountSubject t \<and>
      chainIdSubject (connectWallet_error e t) = chainIdSubject t \<and>
      loadingSubject (connectWallet_error e t) = False \<and>
      events (connectWallet_error e t) =
        events t @
          [ConsoleError ''Failed to connect wallet:'',
           ErrorNext (Some (if instanceof_Error e then e
                            else Error_instance ''Error'' (errorMessage e))),
           ToastrError (errorMessage e) ''Connection Failed'', LoadingNext False]" for t
    by (simp add: connectWallet_error_def loadingSubject_next_def console_error_def
        handleConnectionError_fields)
  have start: "localStorage (connectWallet k s) = localStorage s \<and>
      accountSubject (connectWallet k s) = accountSubject s \<and>
      chainIdSubject (connectWallet k s) = chainIdSubject s \<and>
      events (connectWallet k s) =
        events s @ [LoadingNext True, ErrorNext None, ProviderCall (connect (connector_of k))]"
    by (simp add: connectWallet_def channel_defs)
  from failed [of s] failed [of "connectWallet k s"] start show ?thesis
    by simp
qed

text \<open>
  Claim C7. \<open>switchNetwork\<close> returns true exactly when the provider's \<open>switchChain\<close>
  resolves. On a rejection it returns false after the shared error routing has run once,
  which shows exactly one more toast; on success no toast is shown. The start of the
  operation only calls the provider for the Holesky chain: it emits nothing on the loading
  channel and nothing on the error channel, and the loading channel is never touched later.
\<close>

theorem switchNetwork_result:
  "fst (switchNetwork_settled outcome s) = (\<exists>result. outcome = Resolved result) \<and>
   switchNetwork_settled (Rejected e) s = (False, handleConnectionError e s) \<and>
   toasts (snd (switchNetwork_settled (Rejected e) s)) =
     toasts s @ [(errorMessage e, ''Connection Failed'')] \<and>
   toasts (snd (switchNetwork_settled (Resolved r) s)) = toasts s \<and>
   events (switchNetwork s) = events s @ [ProviderCall (switchChain 17000)] \<and>
   loadingSubject (switchNetwork s) = loadingSubject s \<and>
   errorSubject (switchNetwork s) = errorSubject s \<and>
   loadingSubject (snd (switchNetwork_settled outcome s)) = loadingSubject s"
proof -
  have returned: "fst (switchNetwork_settled outcome s) = (\<exists>result. outcome = Resolved result)"
    by (cases outcome) (simp_all add: switchNetwork_settled_def)
  have rejected: "switchNetwork_settled (Rejected e) s = (False, handleConnectionError e s)"
    by (simp add: switchNetwork_settled_def)
  have one_toast: "toasts (snd (switchNetwork_settled (Rejected e) s)) =
      toasts s @ [(errorMessage e, ''Connection Failed'')]"
    by (simp add: rejected handleConnectionError_toasts)
  have no_toast: "toasts (snd (switchNetwork_settled (Resolved r) s)) = toasts s"
    by (simp add: switchNetwork_settled_def toasts_def console_log_def)
  have start: "events (switchNetwork s) = events s @ [ProviderCall (switchChain 17000)] \<and>
      loadingSubject (switchNetwork s) = loadingSubject s \<and>
      errorSubject (switchNetwork s) = errorSubject s"
    by (simp add: switchNetwork_def provider_def holesky_id_def)
  have loading: "loadingSubject (snd (switchNetwork_settled outcome s)) = loadingSubject s"
    by (cases outcome)
      (simp_all add: switchNetwork_settled_def console_log_def handleConnectionError_fields)
  from returned rejected one_toast no_toast start loading show ?thesis
    by simp
qed

section \<open>Properties of the error routing\<close>

text \<open>
  Claim C8, as stated, fails on an error whose message is the empty string: the error
  carries a message field, yet the generic fallback is shown, not the message.
\<close>

theorem errorMessage_empty_message_counterexample:
  "error_name (Error_instance ''Error'' []) \<noteq> Some ''UserRejectedRequestError'' \<and>
   error_message (Error_instance ''Error'' []) = Some [] \<and>
   errorMessage (Error_instance ''Error'' []) = ''An unknown error occurred. Please try again.'' \<and>
   toasts (handleConnectionError (Error_instance ''Error'' []) (fields None)) =
     [(''An unknown error occurred. Please try again.'', ''Connection Failed'')]"
  by (simp add: errorMessage_def handleConnectionError_fields toasts_def fields_def)

text \<open>
  Claim C8, amended. A user-rejected error (its name is \<open>UserRejectedRequestError\<close>)
  resolves to the fixed rejection message; otherwise an error with a non-empty message
  resolves to that message verbatim; otherwise (no message, or an empty one) the generic
  fallback is used. In every case the error is published on the error channel, wrapped as a
  new \<open>Error\<close> of the resolved message unless it is an \<open>Error\<close> already, then the resolved
  message goes to the notification sink under the title \<open>Connection Failed\<close>; nothing else
  is emitted and no other channel changes.
\<close>

theorem handleConnectionError_routing:
  "(error_name e = Some ''UserRejectedRequestError'' \<longrightarrow>
      errorMessage e = ''You rejected the wallet connection request.'') \<and>
   (error_name e \<noteq> Some ''UserRejectedRequestError'' \<and> error_message e = Some m \<and> m \<noteq> [] \<longrightarrow>
      errorMessage e = m) \<and>
   (error_name e \<noteq> Some ''UserRejectedRequestError'' \<and>
    (error_message e = None \<or> error_message e = Some []) \<longrightarrow>
      errorMessage e = ''An unknown error occurred. Please try again.'') \<and>
   errorSubject (handleConnectionError e s) =
     Some (if instanceof_Error e then e else Error_instance ''Error'' (errorMessage e)) \<and>
   events (handleConnectionError e s) =
     events s @
       [ErrorNext (Some (if instanceof_Error e then e
                         else Error_instance ''Error'' (errorMessage e))),
        ToastrError (errorMessage e) ''Connection Failed''] \<and>
   toasts (handleConnectionError e s) = toasts s @ [(errorMessage e, ''Connection Failed'')] \<and>
   accountSubject (handleConnectionError e s) = accountSubject s \<and>
   chainIdSubject (handleConnectionError e s) = chainIdSubject s \<and>
   loadingSubject (handleConnectionError e s) = loadingSubject s \<and>
   localStorage (handleConnectionError e s) = localStorage s"
proof -
  have rejected: "error_name e = Some ''UserRejectedRequestError'' \<longrightarrow>
      errorMessage e = ''You rejected the wallet connection request.''"
    by (simp add: errorMessage_def)
  have verbatim: "error_name e \<noteq> Some ''UserRejectedRequestError'' \<and>
      error_message e = Some m \<and> m \<noteq> [] \<longrightarrow> errorMessage e = m"
    by (simp add: errorMessage_def)
  have fallback: "error_name e \<noteq> Some ''UserRejectedRequestError'' \<and>
      (error_message e = None \<or> error_message e = Some []) \<longrightarrow>
      errorMessage e = ''An unknown error occurred. Please try again.''"
    by (auto simp add: errorMessage_def)
  from rejected verbatim fallback show ?thesis
    by (simp add: handleConnectionError_fields handleConnectionError_toasts)
qed

theorem handleConnectionError_routing_witness:
  "errorMessage (Other_object (Some ''UserRejectedRequestError'') None) =
     ''You rejected the wallet connection request.'' \<and>
   errorSubject (handleConnectionError (Other_object (Some ''UserRejectedRequestError'') None)
       (fields None)) =
     Some (Error_instance ''Error'' ''You rejected the wallet connection request.'') \<and>
   toasts (handleConnectionError (Other_object (Some ''UserRejectedRequestError'') None)
       (fields None)) =
     [(''You rejected the wallet connection request.'', ''Connection Failed'')] \<and>
   errorMessage (Error_instance ''TimeoutError'' ''The request timed out.'') =
     ''The request timed out.'' \<and>
   errorSubject (handleConnectionError (Error_instance ''TimeoutError'' ''The request timed out.'')
       (fields None)) =
     Some (Error_instance ''TimeoutError'' ''The request timed out.'') \<and>
   errorMessage Primitive = ''An unknown error occurred. Please try again.''"
proof -
  have rejected: "errorMessage (Other_object (Some ''UserRejectedRequestError'') None) =
        ''You rejected the wallet connection request.'' \<and>
      errorSubject (handleConnectionError (Other_object (Some ''UserRejectedRequestError'') None)
          (fields None)) =
        Some (Error_instance ''Error'' ''You rejected the wallet connection request.'') \<and>
      toasts (handleConnectionError (Other_object (Some ''UserRejectedRequestError'') None)
          (fields None)) =
        [(''You rejected the wallet connection request.'', ''Connection Failed'')]"
    using handleConnectionError_routing
      [of "Other_object (Some ''UserRejectedRequestError'') None" "[]" "fields None"]
    by (simp add: handleConnectionError_fields toasts_def fields_def)
  have verbatim: "errorMessage (Error_instance ''TimeoutError'' ''The request timed out.'') =
        ''The request timed out.'' \<and>
      errorSubject (handleConnectionError
          (Error_instance ''TimeoutError'' ''The request timed out.'') (fields None)) =
        Some (Error_instance ''TimeoutError'' ''The request timed out.'')"
    using handleConnectionError_routing
      [of "Error_instance ''TimeoutError'' ''The request timed out.''"
        "''The request timed out.''" "fields None"]
    by simp
  have fallback: "errorMessage Primitive = ''An unknown error occurred. Please try again.''"
    using handleConnectionError_routing [of Primitive "[]" "fields None"]
    by simp
  from rejected verbatim fallback show ?thesis
    by simp
qed

section \<open>Properties of the persisted record\<close>

lemma store_after_success:
  "localStorage (connectWallet_next r w s) =
     Some (JSON_stringify
       \<lparr>address = first_account (accounts r), chainId = Some (connect_chainId r),
          isConnected = True\<rparr>)"
  "localStorage (reconnectWallet_resolved rr s) =
     Some (JSON_stringify
       \<lparr>address = account rr, chainId = reconnect_chainId rr,
          isConnected = or_false (reconnect_isConnected rr)\<rparr>)"
  "localStorage (disconnectWallet_next s) = None"
  by (simp_all add: connectWallet_next_def reconnectWallet_resolved_def
      disconnectWallet_next_def clearConnectionState_def saveConnectionState_def channel_defs)

text \<open>
  Claim C9, as stated, fails on a reconnect that resolves without a connection: the service
  then writes a record whose \<open>isConnected\<close> is false, also into a store that held no
  record before.
\<close>

theorem reconnect_persists_disconnected_counterexample:
  \<open>localStorage (reconnectWallet (fields None)) = None \<and>
   localStorage
     (reconnectWallet_resolved
        \<lparr>account = None, reconnect_chainId = None, reconnect_isConnected = None\<rparr>
        (reconnectWallet (fields None))) = Some ''{"isConnected":false}'' \<and>
   localStorage
     (reconnectWallet_resolved
        \<lparr>account = Some ''0xAB'', reconnect_chainId = Some 17000,
           reconnect_isConnected = Some False\<rparr>
        (reconnectWallet (fields None))) =
     Some ''{"address":"0xAB","chainId":17000,"isConnected":false}''\<close>
  by (simp add: store_after_success reconnectWallet_fields fields_def or_false_def
      JSON_stringify_def quote_def quote_char_def show_int_def digit_char_def)

text \<open>
  Claim C9, amended. The success callback of connect writes the record of the first returned
  account, the returned chain id and \<open>isConnected\<close> true; a resolved reconnect writes the
  record of what the provider returned, with \<open>isConnected\<close> false when the returned flag is
  false or missing; the success callback of disconnect removes the record. No other step
  writes or removes it: not the start of an operation, not a failed connect, disconnect or
  reconnect, and not the restore at initialisation.
\<close>

theorem persisted_record_writes:
  "localStorage (connectWallet_next r w s) =
     Some (JSON_stringify
       \<lparr>address = first_account (accounts r), chainId = Some (connect_chainId r),
          isConnected = True\<rparr>) \<and>
   localStorage (reconnectWallet_resolved rr s) =
     Some (JSON_stringify
       \<lparr>address = account rr, chainId = reconnect_chainId rr,
          isConnected = or_false (reconnect_isConnected rr)\<rparr>) \<and>
   localStorage (disconnectWallet_next s) = None \<and>
   localStorage (connectWallet k s) = localStorage s \<and>
   localStorage (connectWallet_error e s) = localStorage s \<and>
   localStorage (disconnectWallet s) = localStorage s \<and>
   localStorage (disconnectWallet_error e s) = localStorage s \<and>
   localStorage (reconnectWallet s) = localStorage s \<and>
   localStorage (reconnectWallet_rejected e s) = localStorage s \<and>
   localStorage (initialize w s) = localStorage s"
proof -
  have starts: "localStorage (connectWallet k s) = localStorage s \<and>
      localStorage (disconnectWallet s) = localStorage s \<and>
      localStorage (reconnectWallet s) = localStorage s"
    by (simp add: connectWallet_def disconnectWallet_def reconnectWallet_def channel_defs)
  have failures: "localStorage (connectWallet_error e s) = localStorage s \<and>
      localStorage (disconnectWallet_error e s) = localStorage s \<and>
      localStorage (reconnectWallet_rejected e s) = localStorage s"
    by (simp add: connectWallet_error_def disconnectWallet_error_def
        reconnectWallet_rejected_def loadingSubject_next_def console_error_def
        handleConnectionError_fields)
  from starts failures show ?thesis
    by (simp add: store_after_success initialize_keeps)
qed

section \<open>Properties of the account and chain id channels\<close>

text \<open>
  Claim C1, as stated, fails on a plain connect: the service starts on an empty store with
  the provider not connected, the user connects, and the success callback publishes the
  connected account while the chain id channel still holds null.
\<close>

theorem connect_keeps_chainId_counterexample:
  "(let off = \<lparr>acct_address = None, acct_chainId = None, acct_chain = None,
                acct_isConnected = False\<rparr>;
        on = \<lparr>acct_address = Some ''0xAB'', acct_chainId = Some 17000,
               acct_chain = Some 17000, acct_isConnected = True\<rparr>;
        s = connectWallet_next \<lparr>accounts = [''0xAB''], connect_chainId = 17000\<rparr>
              \<lparr>getAccount = Some on, JSON_parse = (\<lambda>t. None)\<rparr>
              (connectWallet Injected
                 (new_WalletService \<lparr>getAccount = Some off, JSON_parse = (\<lambda>t. None)\<rparr> None))
    in accountSubject s = Some (Live on) \<and> value_isConnected (accountSubject s) \<and>
       acct_chainId on = Some 17000 \<and> chainIdSubject s = None)"
  by (simp add: Let_def connectWallet_next_def connectWallet_def new_WalletService_def
      fields_def initialize_def updateAccount_def updateChainId_def startWatchingAccount_def
      startWatchingChainId_def saveConnectionState_def or_null_def channel_defs)

text \<open>
  Claim C1, amended. The success callback of disconnect publishes the account as absent and
  then the chain id as absent within the one callback. The steps that publish an account
  value (the success callback of connect, the account watcher, and \<open>updateAccount\<close>) emit
  nothing on the chain id channel and leave its value as it was; the chain id is published
  only by \<open>updateChainId\<close> at initialisation, from the provider's live account, by the chain
  watcher, and by the disconnect callback.
\<close>

theorem account_chainId_channels:
  "accountSubject (disconnectWallet_next s) = None \<and>
   chainIdSubject (disconnectWallet_next s) = None \<and>
   events (disconnectWallet_next s) =
     events s @ [ConsoleLog ''Wallet disconnected'', AccountNext None, ChainIdNext None,
                 RemoveItem, LoadingNext False] \<and>
   chainIdSubject (connectWallet_next r w s) = chainIdSubject s \<and>
   chainIdSubject (onAccountChange a s) = chainIdSubject s \<and>
   chainIdSubject (updateAccount w s) = chainIdSubject s \<and>
   chainIdSubject (initialize w s) =
     or_null (case getAccount w of None \<Rightarrow> None | Some a \<Rightarrow> acct_chain a) \<and>
   chainIdSubject (onChainIdChange c s) = or_null c \<and>
   accountSubject (onChainIdChange c s) = accountSubject s"
proof -
  have disconnected: "accountSubject (disconnectWallet_next s) = None \<and>
      chainIdSubject (disconnectWallet_next s) = None \<and>
      events (disconnectWallet_next s) =
        events s @ [ConsoleLog ''Wallet disconnected'', AccountNext None, ChainIdNext None,
                    RemoveItem, LoadingNext False]"
    by (simp add: disconnectWallet_next_def clearConnectionState_def channel_defs)
  have connected: "chainIdSubject (connectWallet_next r w s) = chainIdSubject s"
    by (simp add: connectWallet_next_def saveConnectionState_def loadingSubject_next_def
        localStorage_setItem_def updateAccount_keeps console_log_def)
  have watchers: "chainIdSubject (onAccountChange a s) = chainIdSubject s \<and>
      chainIdSubject (onChainIdChange c s) = or_null c \<and>
      accountSubject (onChainIdChange c s) = accountSubject s"
    by (simp add: onAccountChange_def onChainIdChange_def channel_defs)
  from disconnected connected watchers show ?thesis
    by (simp add: updateAccount_keeps initialize_keeps)
qed

section \<open>Properties of the restore at initialisation\<close>

lemma initialize_unparsed:
  assumes "localStorage s = Some t" and "t \<noteq> []" and "JSON_parse w t = None"
  shows "accountSubject (initialize w s) = accountSubject s"
    and "loadingSubject (initialize w s) = True"
    and "events (initialize w s) =
      events s @
        [LoadingNext True, ErrorNext None, ProviderCall (reconnect connectors),
         ConsoleError ''Failed to parse wallet connection state:'',
         ChainIdNext (or_null (case getAccount w of None \<Rightarrow> None | Some a \<Rightarrow> acct_chain a)),
         ProviderCall watchAccount, ProviderCall watchChainId]"
proof -
  from assms have step: "updateAccount w s =
      console_error ''Failed to parse wallet connection state:'' (reconnectWallet s)"
    by (rule updateAccount_unparsed)
  show "accountSubject (initialize w s) = accountSubject s"
    by (simp add: initialize_keeps step console_error_def reconnectWallet_fields)
  show "loadingSubject (initialize w s) = True"
    by (simp add: initialize_def startWatchingChainId_def startWatchingAccount_def
        updateChainId_def step channel_defs reconnectWallet_fields)
  show "events (initialize w s) =
      events s @
        [LoadingNext True, ErrorNext None, ProviderCall (reconnect connectors),
         ConsoleError ''Failed to parse wallet connection state:'',
         ChainIdNext (or_null (case getAccount w of None \<Rightarrow> None | Some a \<Rightarrow> acct_chain a)),
         ProviderCall watchAccount, ProviderCall watchChainId]"
    by (simp add: initialize_keeps step console_error_def reconnectWallet_fields)
qed

lemma initialize_restored:
  assumes "localStorage s = Some t" and "t \<noteq> []" and "JSON_parse w t = Some d"
  shows "accountSubject (initialize w s) = Some (Restored d)"
    and "events (initialize w s) =
      events s @
        [LoadingNext True, ErrorNext None, ProviderCall (reconnect connectors),
         ConsoleLog ''loadData'', AccountNext (Some (Restored d)),
         ChainIdNext (or_null (case getAccount w of None \<Rightarrow> None | Some a \<Rightarrow> acct_chain a)),
         ProviderCall watchAccount, ProviderCall watchChainId]"
proof -
  from assms have step: "updateAccount w s =
      accountSubject_next (Some (Restored d)) (console_log ''loadData'' (reconnectWallet s))"
    by (rule updateAccount_restored)
  show "accountSubject (initialize w s) = Some (Restored d)"
    by (simp add: initialize_keeps step accountSubject_next_def)
  show "events (initialize w s) =
      events s @
        [LoadingNext True, ErrorNext None, ProviderCall (reconnect connectors),
         ConsoleLog ''loadData'', AccountNext (Some (Restored d)),
         ChainIdNext (or_null (case getAccount w of None \<Rightarrow> None | Some a \<Rightarrow> acct_chain a)),
         ProviderCall watchAccount, ProviderCall watchChainId]"
    by (simp add: initialize_keeps step accountSubject_next_def console_log_def
        reconnectWallet_fields)
qed

lemma initialize_live:
  assumes "localStorage s = None \<or> localStorage s = Some []"
  shows "accountSubject (initialize w s) = map_option Live (getAccount w)"
  using assms by (simp add: initialize_keeps updateAccount_live accountSubject_next_def)

text \<open>
  Claim C4, as stated, fails on a record that does not parse: with no record the service
  publishes the provider's live account, but with the unparsable record it publishes
  nothing on the account channel, which keeps its initial absent value, and it has launched
  a reconnect.
\<close>

theorem restore_unparsed_counterexample:
  "(let on = \<lparr>acct_address = Some ''0xAB'', acct_chainId = Some 17000,
               acct_chain = Some 17000, acct_isConnected = True\<rparr>;
        w = \<lparr>getAccount = Some on, JSON_parse = (\<lambda>t. None)\<rparr>
    in accountSubject (new_WalletService w None) = Some (Live on) \<and>
       accountSubject (new_WalletService w (Some ''{oops'')) = None \<and>
       events (new_WalletService w (Some ''{oops'')) =
         [LoadingNext True, ErrorNext None, ProviderCall (reconnect connectors),
          ConsoleError ''Failed to parse wallet connection state:'',
          ChainIdNext (Some 17000), ProviderCall watchAccount, ProviderCall watchChainId])"
proof -
  let ?on = "\<lparr>acct_address = Some ''0xAB'', acct_chainId = Some 17000,
      acct_chain = Some 17000, acct_isConnected = True\<rparr>"
  let ?w = "\<lparr>getAccount = Some ?on, JSON_parse = (\<lambda>t. None)\<rparr>"
  have stored: "localStorage (fields (Some ''{oops'')) = Some ''{oops''"
    and empty: "localStorage (fields None) = None \<or> localStorage (fields None) = Some []"
    by (simp_all add: fields_def)
  have unparsed: "JSON_parse ?w ''{oops'' = None" and nonempty: "''{oops'' \<noteq> []"
    by simp_all
  have live: "accountSubject (new_WalletService ?w None) = Some (Live ?on)"
    using initialize_live [OF empty, of ?w] by (simp add: new_WalletService_def)
  have silent: "accountSubject (new_WalletService ?w (Some ''{oops'')) = None"
    using initialize_unparsed(1) [OF stored nonempty unparsed]
    by (simp add: new_WalletService_def fields_def)
  have run: "events (new_WalletService ?w (Some ''{oops'')) =
      [LoadingNext True, ErrorNext None, ProviderCall (reconnect connectors),
       ConsoleError ''Failed to parse wallet connection state:'',
       ChainIdNext (Some 17000), ProviderCall watchAccount, ProviderCall watchChainId]"
    using initialize_unparsed(3) [OF stored nonempty unparsed]
    by (simp add: new_WalletService_def fields_def or_null_def)
  from live silent run show ?thesis
    by (simp add: Let_def)
qed

text \<open>
  Claim C4, amended. During the restore at initialisation, if the persisted record is
  present (a non-empty text) but fails to parse as JSON, the failure is caught locally and
  logged. The reconnect attempt was launched before the parse, so loading is true and the
  error channel was cleared. Nothing is published on the account channel, which keeps the
  value it had: no live provider query is made for it. Initialisation is not blocked: it
  goes on to publish the chain id of the provider's live account and to start both watchers.
\<close>

theorem restore_unparsed:
  assumes "localStorage s = Some t" and "t \<noteq> []" and "JSON_parse w t = None"
  shows "accountSubject (initialize w s) = accountSubject s \<and>
    loadingSubject (initialize w s) = True \<and>
    localStorage (initialize w s) = localStorage s \<and>
    chainIdSubject (initialize w s) =
      or_null (case getAccount w of None \<Rightarrow> None | Some a \<Rightarrow> acct_chain a) \<and>
    events (initialize w s) =
      events s @
        [LoadingNext True, ErrorNext None, ProviderCall (reconnect connectors),
         ConsoleError ''Failed to parse wallet connection state:'',
         ChainIdNext (or_null (case getAccount w of None \<Rightarrow> None | Some a \<Rightarrow> acct_chain a)),
         ProviderCall watchAccount, ProviderCall watchChainId]"
proof -
  note run = initialize_unparsed [OF assms]
  have kept: "localStorage (initialize w s) = localStorage s"
    by (rule initialize_keeps)
  have chain: "chainIdSubject (initialize w s) =
      or_null (case getAccount w of None \<Rightarrow> None | Some a \<Rightarrow> acct_chain a)"
    by (rule initialize_keeps)
  from run kept chain show ?thesis
    by simp
qed

theorem restore_unparsed_witness:
  "(let w = \<lparr>getAccount = Some \<lparr>acct_address = Some ''0xAB'', acct_chainId = Some 17000,
                 acct_chain = Some 17000, acct_isConnected = True\<rparr>,
             JSON_parse = (\<lambda>t. None)\<rparr>;
        s = initialize w (fields (Some ''{oops''))
    in accountSubject s = None \<and> loadingSubject s = True \<and>
       localStorage s = Some ''{oops'' \<and> chainIdSubject s = Some 17000 \<and>
       events s =
         [LoadingNext True, ErrorNext None, ProviderCall (reconnect connectors),
          ConsoleError ''Failed to parse wallet connection state:'',
          ChainIdNext (Some 17000), ProviderCall watchAccount, ProviderCall watchChainId])"
  using restore_unparsed
    [of "fields (Some ''{oops'')" "''{oops''"
      "\<lparr>getAccount = Some \<lparr>acct_address = Some ''0xAB'', acct_chainId = Some 17000,
          acct_chain = Some 17000, acct_isConnected = True\<rparr>,
        JSON_parse = (\<lambda>t. None)\<rparr>"]
  by (simp add: Let_def fields_def or_null_def)

text \<open>
  Claim C5, as stated, fails where the provider reports no chain when the service starts,
  as it does before any reconnect has resolved: the account channel emits the persisted
  record with its address, but the chain id channel emits null, not 17000.
\<close>

theorem restore_chainId_counterexample:
  \<open>(let stored = ''{"address":"0xAB...1234","chainId":17000,"isConnected":true}'';
        data = JObj [(''address'', JStr ''0xAB...1234''), (''chainId'', JNum 17000),
                     (''isConnected'', JBool True)];
        w = \<lparr>getAccount = Some \<lparr>acct_address = None, acct_chainId = None, acct_chain = None,
                 acct_isConnected = False\<rparr>,
             JSON_parse = (\<lambda>t. if t = stored then Some data else None)\<rparr>;
        s = new_WalletService w (Some stored)
    in value_address (accountSubject s) = JStr ''0xAB...1234'' \<and>
       chainIdSubject s = None \<and>
       events s =
         [LoadingNext True, ErrorNext None, ProviderCall (reconnect connectors),
          ConsoleLog ''loadData'', AccountNext (Some (Restored data)),
          ChainIdNext None, ProviderCall watchAccount, ProviderCall watchChainId])\<close>
proof -
  let ?stored = \<open>''{"address":"0xAB...1234","chainId":17000,"isConnected":true}''\<close>
  let ?data = "JObj [(''address'', JStr ''0xAB...1234''), (''chainId'', JNum 17000),
      (''isConnected'', JBool True)]"
  let ?w = "\<lparr>getAccount = Some \<lparr>acct_address = None, acct_chainId = None, acct_chain = None,
        acct_isConnected = False\<rparr>,
      JSON_parse = (\<lambda>t. if t = ?stored then Some ?data else None)\<rparr>"
  have stored: "localStorage (fields (Some ?stored)) = Some ?stored"
    by (simp add: fields_def)
  have nonempty: "?stored \<noteq> []"
    by simp
  have parsed: "JSON_parse ?w ?stored = Some ?data"
    by simp
  have emitted: "accountSubject (new_WalletService ?w (Some ?stored)) = Some (Restored ?data)"
    using initialize_restored(1) [OF stored nonempty parsed]
    by (simp add: new_WalletService_def)
  have chain: "chainIdSubject (new_WalletService ?w (Some ?stored)) = None"
    by (simp add: new_WalletService_def initialize_keeps or_null_def)
  have run: "events (new_WalletService ?w (Some ?stored)) =
      [LoadingNext True, ErrorNext None, ProviderCall (reconnect connectors),
       ConsoleLog ''loadData'', AccountNext (Some (Restored ?data)),
       ChainIdNext None, ProviderCall watchAccount, ProviderCall watchChainId]"
    using initialize_restored(2) [OF stored nonempty parsed]
    by (simp add: new_WalletService_def fields_def or_null_def)
  from emitted chain run show ?thesis
    by (simp add: Let_def)
qed

text \<open>
  Claim C5, amended. When a persisted record is present at restore and parses, to
  \<open>{address: "0xAB...1234", chainId: 17000, isConnected: true}\<close> say, the account channel
  emits the parsed record, a value with that address, within the synchronous run of
  \<open>initialize\<close>: after the validating reconnect has been launched and before it can resolve.
  The chain id channel then emits the chain id of the provider's live account, null when
  the provider reports no chain or chain 0, whatever chain id the record holds; it emits
  17000 exactly when the provider is on that chain.
\<close>

theorem restore_publishes_record:
  assumes "localStorage s = Some t" and "t \<noteq> []" and "JSON_parse w t = Some d"
  shows "accountSubject (initialize w s) = Some (Restored d) \<and>
    value_address (accountSubject (initialize w s)) = get_prop d ''address'' \<and>
    chainIdSubject (initialize w s) =
      or_null (case getAccount w of None \<Rightarrow> None | Some a \<Rightarrow> acct_chain a) \<and>
    events (initialize w s) =
      events s @
        [LoadingNext True, ErrorNext None, ProviderCall (reconnect connectors),
         ConsoleLog ''loadData'', AccountNext (Some (Restored d)),
         ChainIdNext (or_null (case getAccount w of None \<Rightarrow> None | Some a \<Rightarrow> acct_chain a)),
         ProviderCall watchAccount, ProviderCall watchChainId]"
proof -
  note run = initialize_restored [OF assms]
  have chain: "chainIdSubject (initialize w s) =
      or_null (case getAccount w of None \<Rightarrow> None | Some a \<Rightarrow> acct_chain a)"
    by (rule initialize_keeps)
  from run chain show ?thesis
    by simp
qed

theorem restore_publishes_record_witness:
  \<open>(let stored = ''{"address":"0xAB...1234","chainId":17000,"isConnected":true}'';
        data = JObj [(''address'', JStr ''0xAB...1234''), (''chainId'', JNum 17000),
                     (''isConnected'', JBool True)];
        w = \<lparr>getAccount = Some \<lparr>acct_address = Some ''0xAB...1234'', acct_chainId = Some 17000,
                 acct_chain = Some 17000, acct_isConnected = True\<rparr>,
             JSON_parse = (\<lambda>t. if t = stored then Some data else None)\<rparr>;
        s = initialize w (fields (Some stored))
    in accountSubject s = Some (Restored data) \<and>
       value_address (accountSubject s) = JStr ''0xAB...1234'' \<and>
       chainIdSubject s = Some 17000 \<and>
       events s =
         [LoadingNext True, ErrorNext None, ProviderCall (reconnect connectors),
          ConsoleLog ''loadData'', AccountNext (Some (Restored data)),
          ChainIdNext (Some 17000), ProviderCall watchAccount, ProviderCall watchChainId])\<close>
  using restore_publishes_record
    [of \<open>fields (Some ''{"address":"0xAB...1234","chainId":17000,"isConnected":true}'')\<close>
      \<open>''{"address":"0xAB...1234","chainId":17000,"isConnected":true}''\<close>
      \<open>\<lparr>getAccount = Some \<lparr>acct_address = Some ''0xAB...1234'', acct_chainId = Some 17000,
          acct_chain = Some 17000, acct_isConnected = True\<rparr>,
        JSON_parse = (\<lambda>t. if t = ''{"address":"0xAB...1234","chainId":17000,"isConnected":true}''
          then Some (JObj [(''address'', JStr ''0xAB...1234''), (''chainId'', JNum 17000),
                           (''isConnected'', JBool True)])
          else None)\<rparr>\<close>
      "JObj [(''address'', JStr ''0xAB...1234''), (''chainId'', JNum 17000),
             (''isConnected'', JBool True)]"]
  by (simp add: Let_def fields_def or_null_def)

section \<open>Properties of a successful connect\<close>

lemma connectWallet_next_fresh:
  assumes "localStorage s = None \<or> localStorage s = Some []"
  shows "accountSubject (connectWallet_next r w s) = map_option Live (getAccount w)"
    and "loadingSubject (connectWallet_next r w s) = False"
    and "events (connectWallet_next r w s) =
      events s @
        [ConsoleLog ''Wallet connected:'', AccountNext (map_option Live (getAccount w)),
         SetItem (JSON_stringify
           \<lparr>address = first_account (accounts r), chainId = Some (connect_chainId r),
              isConnected = True\<rparr>),
         LoadingNext False]"
proof -
  from assms have stored: "localStorage (console_log ''Wallet connected:'' s) = None \<or>
      localStorage (console_log ''Wallet connected:'' s) = Some []"
    by (simp add: console_log_def)
  note step = updateAccount_live [OF stored, of w]
  show "accountSubject (connectWallet_next r w s) = map_option Live (getAccount w)"
    unfolding connectWallet_next_def step
    by (simp add: saveConnectionState_def channel_defs)
  show "loadingSubject (connectWallet_next r w s) = False"
    by (simp add: connectWallet_next_def loadingSubject_next_def)
  show "events (connectWallet_next r w s) =
      events s @
        [ConsoleLog ''Wallet connected:'', AccountNext (map_option Live (getAccount w)),
         SetItem (JSON_stringify
           \<lparr>address = first_account (accounts r), chainId = Some (connect_chainId r),
              isConnected = True\<rparr>),
         LoadingNext False]"
    unfolding connectWallet_next_def step
    by (simp add: saveConnectionState_def channel_defs)
qed

lemma connectWallet_next_stored:
  assumes "localStorage s = Some t" and "t \<noteq> []" and "JSON_parse w t = Some d"
  shows "accountSubject (connectWallet_next r w s) = Some (Restored d)"
    and "events (connectWallet_next r w s) =
      events s @
        [ConsoleLog ''Wallet connected:'', LoadingNext True, ErrorNext None,
         ProviderCall (reconnect connectors), ConsoleLog ''loadData'',
         AccountNext (Some (Restored d)),
         SetItem (JSON_stringify
           \<lparr>address = first_account (accounts r), chainId = Some (connect_chainId r),
              isConnected = True\<rparr>),
         LoadingNext False]"
proof -
  from assms(1) have stored: "localStorage (console_log ''Wallet connected:'' s) = Some t"
    by (simp add: console_log_def)
  note step = updateAccount_restored [OF stored assms(2) assms(3)]
  show "accountSubject (connectWallet_next r w s) = Some (Restored d)"
    unfolding connectWallet_next_def step
    by (simp add: saveConnectionState_def channel_defs)
  show "events (connectWallet_next r w s) =
      events s @
        [ConsoleLog ''Wallet connected:'', LoadingNext True, ErrorNext None,
         ProviderCall (reconnect connectors), ConsoleLog ''loadData'',
         AccountNext (Some (Restored d)),
         SetItem (JSON_stringify
           \<lparr>address = first_account (accounts r), chainId = Some (connect_chainId r),
              isConnected = True\<rparr>),
         LoadingNext False]"
    unfolding connectWallet_next_def step
    by (simp add: saveConnectionState_def channel_defs reconnectWallet_fields)
qed

lemma store_after_start:
  "localStorage (connectWallet k s) = localStorage s"
  by (simp add: connectWallet_def channel_defs)

text \<open>
  Claim C2 says that a successful connect, for every connector kind, republishes the account
  channel from a fresh provider query, persists the record of the first returned account,
  the returned chain id and \<open>isConnected\<close> true, and ends with loading false. On a store
  without a record the code does so (\<open>connectWallet_next_fresh\<close>). The code evaluated at a
  second connect: the service starts on an empty store; a first connect, to account
  \<open>0x1111\<close>, republishes the provider's live account and persists its record. A second
  connect, to account \<open>0x2222\<close>, then finds that record in the store: the success callback
  does not query the provider but publishes the parsed record of \<open>0x1111\<close> on the account
  channel, after launching a reconnect, while the record it persists is that of \<open>0x2222\<close>
  and loading ends at false.
\<close>

theorem connect_over_persisted_record:
  \<open>(let stored = ''{"address":"0x1111","chainId":17000,"isConnected":true}'';
        data = JObj [(''address'', JStr ''0x1111''), (''chainId'', JNum 17000),
                     (''isConnected'', JBool True)];
        parse = (\<lambda>t. if t = stored then Some data else None);
        off = \<lparr>acct_address = None, acct_chainId = None, acct_chain = None,
                acct_isConnected = False\<rparr>;
        one = \<lparr>acct_address = Some ''0x1111'', acct_chainId = Some 17000,
                acct_chain = Some 17000, acct_isConnected = True\<rparr>;
        two = \<lparr>acct_address = Some ''0x2222'', acct_chainId = Some 17000,
                acct_chain = Some 17000, acct_isConnected = True\<rparr>;
        s1 = connectWallet_next \<lparr>accounts = [''0x1111''], connect_chainId = 17000\<rparr>
               \<lparr>getAccount = Some one, JSON_parse = parse\<rparr>
               (connectWallet Injected
                  (new_WalletService \<lparr>getAccount = Some off, JSON_parse = parse\<rparr> None));
        s2 = connectWallet_next \<lparr>accounts = [''0x2222''], connect_chainId = 17000\<rparr>
               \<lparr>getAccount = Some two, JSON_parse = parse\<rparr>
               (connectWallet Injected s1)
    in accountSubject s1 = Some (Live one) \<and>
       localStorage s1 = Some stored \<and>
       accountSubject s2 = Some (Restored data) \<and>
       value_address (accountSubject s2) = JStr ''0x1111'' \<and>
       localStorage s2 = Some ''{"address":"0x2222","chainId":17000,"isConnected":true}'' \<and>
       loadingSubject s2 = False)\<close>
proof -
  let ?stored = \<open>''{"address":"0x1111","chainId":17000,"isConnected":true}''\<close>
  let ?data = "JObj [(''address'', JStr ''0x1111''), (''chainId'', JNum 17000),
      (''isConnected'', JBool True)]"
  let ?parse = "\<lambda>t. if t = ?stored then Some ?data else None"
  let ?off = "\<lparr>acct_address = None, acct_chainId = None, acct_chain = None,
      acct_isConnected = False\<rparr>"
  let ?one = "\<lparr>acct_address = Some ''0x1111'', acct_chainId = Some 17000,
      acct_chain = Some 17000, acct_isConnected = True\<rparr>"
  let ?two = "\<lparr>acct_address = Some ''0x2222'', acct_chainId = Some 17000,
      acct_chain = Some 17000, acct_isConnected = True\<rparr>"
  let ?s0 = "connectWallet Injected
      (new_WalletService \<lparr>getAccount = Some ?off, JSON_parse = ?parse\<rparr> None)"
  let ?s1 = "connectWallet_next \<lparr>accounts = [''0x1111''], connect_chainId = 17000\<rparr>
      \<lparr>getAccount = Some ?one, JSON_parse = ?parse\<rparr> ?s0"
  let ?s2 = "connectWallet_next \<lparr>accounts = [''0x2222''], connect_chainId = 17000\<rparr>
      \<lparr>getAccount = Some ?two, JSON_parse = ?parse\<rparr> (connectWallet Injected ?s1)"
  have empty: "localStorage ?s0 = None \<or> localStorage ?s0 = Some []"
    by (simp add: store_after_start new_WalletService_def initialize_keeps fields_def)
  have first_account: "accountSubject ?s1 = Some (Live ?one)"
    using connectWallet_next_fresh(1) [OF empty] by simp
  have first_record: "localStorage ?s1 = Some ?stored"
    by (simp add: store_after_success first_account_def JSON_stringify_def quote_def
        quote_char_def show_int_def digit_char_def)
  then have found: "localStorage (connectWallet Injected ?s1) = Some ?stored"
    by (simp only: store_after_start)
  have nonempty: "?stored \<noteq> []"
    by simp
  have parsed: "JSON_parse \<lparr>getAccount = Some ?two, JSON_parse = ?parse\<rparr> ?stored = Some ?data"
    by simp
  have second_account: "accountSubject ?s2 = Some (Restored ?data)"
    using connectWallet_next_stored(1) [OF found nonempty parsed] by simp
  have second_record: \<open>localStorage ?s2 =
      Some ''{"address":"0x2222","chainId":17000,"isConnected":true}''\<close>
    by (simp add: store_after_success first_account_def JSON_stringify_def quote_def
        quote_char_def show_int_def digit_char_def)
  have loading: "loadingSubject ?s2 = False"
    by (simp add: connectWallet_next_def loadingSubject_next_def)
  from first_account first_record second_account second_record loading show ?thesis
    by (simp add: Let_def)
qed

end
